theory Spec2Isabelle
  imports Main "HOL-Library.Word"
begin

section \<open>Data model\<close>

text \<open>
  The repository is an Express server with one stateful route, \<^verbatim>\<open>POST /upload\<close>, and a browser
  script.  Two versions of the server are present: \<^verbatim>\<open>src/unnamed/part_000\<close> (the retention slot
  is the module variable \<^verbatim>\<open>currentFilePath\<close>, deletions go through \<^verbatim>\<open>deleteFile\<close>) and
  \<^verbatim>\<open>src/unnamed/part_001\<close> (the slot is \<^verbatim>\<open>lastFile\<close>, deletions are \<^verbatim>\<open>fs.unlink\<close> with a
  callback that rethrows).  Definitions without suffix embed part_000; those ending in
  \<open>_001\<close> embed part_001.

  A file on disk is its byte sequence, the upload directory is a partial map from paths
  to files.  \<open>upload_handler\<close> is one request handled with nothing in between, its
  callbacks and promises in program order; \<open>handler_step\<close> is the same handler one
  callback at a time, for requests that overlap.  Console output is not modelled.
\<close>

type_synonym byte = "8 word"
type_synonym path = string

text \<open>The file object multer hands to \<^verbatim>\<open>fileFilter\<close> and \<^verbatim>\<open>filename\<close>; the browser's
  \<^verbatim>\<open>File\<close> has the same data under the names \<^verbatim>\<open>name\<close>, \<^verbatim>\<open>type\<close> and \<^verbatim>\<open>size\<close>.\<close>

record upload_file =
  fieldname :: string
  originalname :: string
  mimetype :: string
  content :: "byte list"

definition file_size :: "upload_file \<Rightarrow> nat" where
  "file_size file = length (content file)"

text \<open>The process of part_000: working directory, the files on disk, and
  \<^verbatim>\<open>let currentFilePath = null\<close>.\<close>

record server =
  cwd :: string
  files :: "path \<rightharpoonup> byte list"
  currentFilePath :: "path option"

definition startup :: "string \<Rightarrow> (path \<rightharpoonup> byte list) \<Rightarrow> server" where
  "startup dir disk = \<lparr>cwd = dir, files = disk, currentFilePath = None\<rparr>"

text \<open>What a function that takes a callback did with it: called it with a value, returned
  without ever calling it, or raised an exception that no handler catches.\<close>

datatype 'a cb = Invoked 'a | NotInvoked | Thrown

section \<open>Numbers and bytes as text\<close>

text \<open>JavaScript's conversion of a non-negative integer below \<open>10^21\<close> to a string: its decimal
  digits.\<close>

definition digit :: "nat \<Rightarrow> char" where
  "digit n = ''0123456789abcdef'' ! n"

fun decimal :: "nat \<Rightarrow> string" where
  "decimal n = (if n < 10 then [digit n] else decimal (n div 10) @ [digit (n mod 10)])"

declare decimal.simps [simp del]

text \<open>\<^verbatim>\<open>Buffer.toString('hex', start, end)\<close>: two lower-case hexadecimal digits for each byte
  of the slice; the slice is cut at the end of the buffer.\<close>

definition hex_byte :: "byte \<Rightarrow> string" where
  "hex_byte b = [digit (unat b div 16), digit (unat b mod 16)]"

definition toString_hex :: "byte list \<Rightarrow> nat \<Rightarrow> nat \<Rightarrow> string" where
  "toString_hex data start end = concat (map hex_byte (take (end - start) (drop start data)))"

text \<open>The value of a hexadecimal digit, to read \<open>hex_byte\<close> back.\<close>

definition hexval :: "char \<Rightarrow> nat" where
  "hexval c = (if of_char c < (58::nat) then of_char c - 48 else of_char c - 87)"

section \<open>Paths\<close>

text \<open>\<^verbatim>\<open>path.join\<close> on segments that are already normalised (a working directory other than
  the root, without a trailing separator; the literal \<^verbatim>\<open>uploads\<close>; a generated file name,
  which has no separator): the segments joined by \<^verbatim>\<open>/\<close>.\<close>

fun path_join :: "string list \<Rightarrow> path" where
  "path_join [] = ''.''"
| "path_join [a] = a"
| "path_join (a # b # rest) = a @ ''/'' @ path_join (b # rest)"

section \<open>The upload middleware: \<^verbatim>\<open>multer({storage, fileFilter, limits})\<close>\<close>

datatype multer_error = UnexpectedField | InvalidType | TooLarge

text \<open>\<^verbatim>\<open>fileFilter\<close>: the only check the server's own code makes on the file object.\<close>

definition fileFilter :: "upload_file \<Rightarrow> bool" where
  "fileFilter file = (mimetype file = ''audio/mpeg'')"

definition fileSize :: nat where
  "fileSize = 7000000"

text \<open>Modelled from the spec: the enforcement of \<^verbatim>\<open>limits.fileSize\<close> is inside the multer and
  busboy packages, which are not under src/; the source only sets the number.  The spec's
  words: the byte size must be strictly less than the ceiling.\<close>

definition within_fileSize :: "nat \<Rightarrow> bool" where
  "within_fileSize n = (n < fileSize)"

text \<open>\<^verbatim>\<open>storage.filename\<close>.  \<open>now\<close> is the value of \<^verbatim>\<open>Date.now()\<close> and \<open>rnd\<close> the value of
  \<^verbatim>\<open>Math.round(Math.random() * 1E9)\<close> at the call.\<close>

definition storage_filename :: "upload_file \<Rightarrow> nat \<Rightarrow> nat \<Rightarrow> string" where
  "storage_filename file now rnd =
     (let uniqueSuffix = decimal now @ ''-'' @ decimal rnd
      in fieldname file @ ''-'' @ uniqueSuffix)"

definition storage_destination :: "string \<Rightarrow> path" where
  "storage_destination dir = path_join [dir, ''uploads'']"

text \<open>\<^verbatim>\<open>upload.single('mp3file')\<close> on a request that carries one file: a file under another
  field name is refused, then \<^verbatim>\<open>fileFilter\<close> runs, then the file is streamed to
  \<^verbatim>\<open>destination/filename\<close> under the size limit (multer removes what it wrote when the
  limit is hit).  On acceptance the result is \<^verbatim>\<open>req.file.filename\<close> and the new disk.\<close>

definition upload_single ::
  "string \<Rightarrow> (path \<rightharpoonup> byte list) \<Rightarrow> upload_file \<Rightarrow> nat \<Rightarrow> nat
     \<Rightarrow> multer_error + (string \<times> (path \<rightharpoonup> byte list))" where
  "upload_single dir disk file now rnd =
     (if fieldname file \<noteq> ''mp3file'' then Inl UnexpectedField
      else if \<not> fileFilter file then Inl InvalidType
      else if \<not> within_fileSize (file_size file) then Inl TooLarge
      else let filename = storage_filename file now rnd
           in Inr (filename, disk(path_join [storage_destination dir, filename] \<mapsto> content file)))"

section \<open>The handler of \<^verbatim>\<open>POST /upload\<close> (part_000)\<close>

text \<open>\<^verbatim>\<open>deleteFile\<close>: \<^verbatim>\<open>unlink\<close> inside \<^verbatim>\<open>try\<close>; a failure (no such file) is logged and
  swallowed, so either way the path is absent afterwards.\<close>

definition deleteFile :: "server \<Rightarrow> path \<Rightarrow> server" where
  "deleteFile s fileToDelete = s\<lparr>files := (files s)(fileToDelete := None)\<rparr>"

text \<open>\<^verbatim>\<open>checkMagicNumber\<close>.  When \<^verbatim>\<open>readFile\<close> fails, \<^verbatim>\<open>data\<close> is undefined and
  \<^verbatim>\<open>data.toString\<close> raises a TypeError inside the \<^verbatim>\<open>readFile\<close> callback; the \<^verbatim>\<open>try\<close> block
  has been left by then.\<close>

definition checkMagicNumber :: "server \<Rightarrow> path \<Rightarrow> bool cb" where
  "checkMagicNumber s filePath =
     (case files s filePath of
        None \<Rightarrow> Thrown
      | Some data \<Rightarrow>
          if toString_hex data 0 3 = ''494433'' then Invoked True else NotInvoked)"

text \<open>The two library calls of \<^verbatim>\<open>parseMP3Metadata\<close> are parameters: \<open>parseFile\<close> tells
  whether the promise of \<^verbatim>\<open>mm.parseFile\<close> is fulfilled on a file, \<open>removeTags\<close> gives the
  bytes \<^verbatim>\<open>NodeID3.removeTags\<close> leaves at the path, or \<open>None\<close> when it raises.\<close>

record id3lib =
  parseFile :: "byte list \<Rightarrow> bool"
  removeTags :: "byte list \<Rightarrow> byte list option"

text \<open>\<^verbatim>\<open>parseMP3Metadata\<close>: the callback is called inside \<^verbatim>\<open>try\<close>, with \<^verbatim>\<open>true\<close>; the
  \<^verbatim>\<open>catch\<close> block deletes the file and returns.\<close>

definition parseMP3Metadata :: "id3lib \<Rightarrow> server \<Rightarrow> path \<Rightarrow> bool cb \<times> server" where
  "parseMP3Metadata L s filePath =
     (case files s filePath of
        None \<Rightarrow> (NotInvoked, deleteFile s filePath)
      | Some data \<Rightarrow>
          if parseFile L data then
            (case removeTags L data of
               None \<Rightarrow> (NotInvoked, deleteFile s filePath)
             | Some stripped \<Rightarrow> (Invoked True, s\<lparr>files := (files s)(filePath \<mapsto> stripped)\<rparr>))
          else (NotInvoked, deleteFile s filePath))"

datatype response = Json string | Status nat string

text \<open>How a request ends: the handler answered, multer passed an error to Express (which
  answers with its error page), nothing was ever sent, or an exception escaped every
  handler (Node ends the process).\<close>

datatype outcome = Responded response | Rejected multer_error | NoResponse | Uncaught

fun responded :: "outcome \<Rightarrow> bool" where
  "responded (Responded r) = True"
| "responded (Rejected e) = True"
| "responded NoResponse = False"
| "responded Uncaught = False"

text \<open>\<^verbatim>\<open>if (currentFilePath) { deleteFile(currentFilePath) }\<close>: \<^verbatim>\<open>null\<close> and the empty string
  are falsy.\<close>

definition delete_last_uploaded :: "server \<Rightarrow> server" where
  "delete_last_uploaded s =
     (case currentFilePath s of
        None \<Rightarrow> s
      | Some previous \<Rightarrow> if previous \<noteq> [] then deleteFile s previous else s)"

definition upload_handler :: "id3lib \<Rightarrow> server \<Rightarrow> string \<Rightarrow> outcome \<times> server" where
  "upload_handler L s filename =
     (let filePath = path_join [cwd s, ''uploads'', filename];
          s1 = delete_last_uploaded s
      in (case checkMagicNumber s1 filePath of
            Thrown \<Rightarrow> (Uncaught, s1)
          | NotInvoked \<Rightarrow> (NoResponse, s1)
          | Invoked result \<Rightarrow>
              (if result = True then
                 (case parseMP3Metadata L s1 filePath of
                    (Invoked parseResult, s2) \<Rightarrow>
                      (if parseResult = True
                       then (Responded (Json (''/uploads/'' @ filename)),
                             s2\<lparr>currentFilePath := Some filePath\<rparr>)
                       else (Responded (Status 500 ''Error while parsing the file.''), s2))
                  | (NotInvoked, s2) \<Rightarrow> (NoResponse, s2)
                  | (Thrown, s2) \<Rightarrow> (Uncaught, s2))
               else (NoResponse, deleteFile s1 filePath))))"

text \<open>The route: middleware, then handler.\<close>

definition upload_route ::
  "id3lib \<Rightarrow> server \<Rightarrow> upload_file \<Rightarrow> nat \<Rightarrow> nat \<Rightarrow> outcome \<times> server" where
  "upload_route L s file now rnd =
     (case upload_single (cwd s) (files s) file now rnd of
        Inl e \<Rightarrow> (Rejected e, s)
      | Inr (filename, disk) \<Rightarrow> upload_handler L (s\<lparr>files := disk\<rparr>) filename)"

text \<open>The path at which the route stages and examines the file of a request.\<close>

definition staged_path :: "server \<Rightarrow> upload_file \<Rightarrow> nat \<Rightarrow> nat \<Rightarrow> path" where
  "staged_path s file now rnd = path_join [cwd s, ''uploads'', storage_filename file now rnd]"

text \<open>The state in which the handler starts its checks: the file is staged and the
  statement \<^verbatim>\<open>if (currentFilePath) { deleteFile(currentFilePath) }\<close> has run.\<close>

definition staged :: "server \<Rightarrow> upload_file \<Rightarrow> nat \<Rightarrow> nat \<Rightarrow> server" where
  "staged s file now rnd =
     delete_last_uploaded (s\<lparr>files := (files s)(staged_path s file now rnd \<mapsto> content file)\<rparr>)"

section \<open>The browser's check: \<^verbatim>\<open>validateFile\<close> (public/scripts.js)\<close>

text \<open>The class \<^verbatim>\<open>[a-zA-Z0-9-_(). ]\<close>.\<close>

definition name_char :: "char \<Rightarrow> bool" where
  "name_char c =
     (let k = (of_char c :: nat)
      in (97 \<le> k \<and> k \<le> 122) \<or> (65 \<le> k \<and> k \<le> 90) \<or> (48 \<le> k \<and> k \<le> 57)
         \<or> c \<in> set ''-_(). '')"

text \<open>\<^verbatim>\<open>/^[a-zA-Z0-9-_(). ]+\.mp3$/.test(name)\<close>: the whole name is one or more characters of
  the class followed by \<^verbatim>\<open>.mp3\<close>.\<close>

definition regexName_test :: "string \<Rightarrow> bool" where
  "regexName_test name =
     (let n = length name
      in 4 < n \<and> drop (n - 4) name = ''.mp3'' \<and> list_all name_char (take (n - 4) name))"

definition validateFile :: "upload_file \<Rightarrow> bool" where
  "validateFile file =
     (if mimetype file \<noteq> ''audio/mpeg'' then False
      else if file_size file \<ge> 7000000 then False
      else if \<not> regexName_test (originalname file) \<or> length (originalname file) > 70 then False
      else True)"

section \<open>The earlier server (part_001)\<close>

text \<open>\<^verbatim>\<open>let lastFile = ''\<close> takes the place of \<^verbatim>\<open>currentFilePath\<close>.\<close>

record server_001 =
  cwd_001 :: string
  files_001 :: "path \<rightharpoonup> byte list"
  lastFile :: string

definition startup_001 :: "string \<Rightarrow> (path \<rightharpoonup> byte list) \<Rightarrow> server_001" where
  "startup_001 dir disk = \<lparr>cwd_001 = dir, files_001 = disk, lastFile = []\<rparr>"

text \<open>\<^verbatim>\<open>fs.unlink(p, (err) => { if (err) throw err; })\<close>: \<open>None\<close> when the callback throws.\<close>

definition unlink_001 :: "server_001 \<Rightarrow> path \<Rightarrow> server_001 option" where
  "unlink_001 s p =
     (case files_001 s p of
        None \<Rightarrow> None
      | Some data \<Rightarrow> Some (s\<lparr>files_001 := (files_001 s)(p := None)\<rparr>))"

text \<open>\<^verbatim>\<open>checkMagicNumber\<close> of part_001: \<^verbatim>\<open>if (err) throw err\<close> inside the \<^verbatim>\<open>readFile\<close>
  callback.\<close>

definition checkMagicNumber_001 :: "server_001 \<Rightarrow> path \<Rightarrow> bool cb" where
  "checkMagicNumber_001 s filePath =
     (case files_001 s filePath of
        None \<Rightarrow> Thrown
      | Some data \<Rightarrow>
          if toString_hex data 0 3 = ''494433'' then Invoked True else NotInvoked)"

text \<open>How the promise of an \<^verbatim>\<open>async\<close> function ends; \<open>Escaped\<close> is an exception thrown in a
  callback that the function had started.\<close>

datatype settled = Fulfilled | Failed | Escaped

definition catch_001 :: "server_001 \<Rightarrow> path \<Rightarrow> settled \<times> server_001" where
  "catch_001 s filePath =
     (case unlink_001 s filePath of
        None \<Rightarrow> (Escaped, s)
      | Some s' \<Rightarrow> (Fulfilled, s'))"

text \<open>\<^verbatim>\<open>parseMP3Metadata\<close> of part_001 takes no callback; its \<^verbatim>\<open>catch\<close> block handles the
  error, so the promise is fulfilled on both paths.\<close>

definition parseMP3Metadata_001 :: "id3lib \<Rightarrow> server_001 \<Rightarrow> path \<Rightarrow> settled \<times> server_001" where
  "parseMP3Metadata_001 L s filePath =
     (case files_001 s filePath of
        None \<Rightarrow> catch_001 s filePath
      | Some data \<Rightarrow>
          if parseFile L data then
            (case removeTags L data of
               None \<Rightarrow> catch_001 s filePath
             | Some stripped \<Rightarrow> (Fulfilled, s\<lparr>files_001 := (files_001 s)(filePath \<mapsto> stripped)\<rparr>))
          else catch_001 s filePath)"

definition upload_handler_001 :: "id3lib \<Rightarrow> server_001 \<Rightarrow> string \<Rightarrow> outcome \<times> server_001" where
  "upload_handler_001 L s filename =
     (let filePath = path_join [cwd_001 s, ''uploads'', filename]
      in (case (if lastFile s \<noteq> [] then unlink_001 s (lastFile s) else Some s) of
            None \<Rightarrow> (Uncaught, s\<lparr>lastFile := filePath\<rparr>)
          | Some s1 \<Rightarrow>
              (let s2 = s1\<lparr>lastFile := filePath\<rparr>
               in (case checkMagicNumber_001 s2 filePath of
                     Thrown \<Rightarrow> (Uncaught, s2)
                   | NotInvoked \<Rightarrow> (NoResponse, s2)
                   | Invoked result \<Rightarrow>
                       (if result = True then
                          (case parseMP3Metadata_001 L s2 filePath of
                             (Fulfilled, s3) \<Rightarrow>
                               (Responded (Json (''/uploads/'' @ filename)), s3)
                           | (Failed, s3) \<Rightarrow>
                               (Responded (Status 500 ''Error while parsing the file.''), s3)
                           | (Escaped, s3) \<Rightarrow> (Uncaught, s3))
                        else (case unlink_001 s2 filePath of
                                None \<Rightarrow> (Uncaught, s2)
                              | Some s3 \<Rightarrow> (NoResponse, s3)))))))"

definition upload_route_001 ::
  "id3lib \<Rightarrow> server_001 \<Rightarrow> upload_file \<Rightarrow> nat \<Rightarrow> nat \<Rightarrow> outcome \<times> server_001" where
  "upload_route_001 L s file now rnd =
     (case upload_single (cwd_001 s) (files_001 s) file now rnd of
        Inl e \<Rightarrow> (Rejected e, s)
      | Inr (filename, disk) \<Rightarrow> upload_handler_001 L (s\<lparr>files_001 := disk\<rparr>) filename)"

section \<open>Runs of the server\<close>

text \<open>A request is the file it carries and the clock and random values read while it is
  staged.\<close>

type_synonym request = "upload_file \<times> nat \<times> nat"

text \<open>Whether the file of a request, handled in state \<open>s\<close>, gets \<^verbatim>\<open>true\<close> from both
  \<^verbatim>\<open>checkMagicNumber\<close> and \<^verbatim>\<open>parseMP3Metadata\<close>, each evaluated on the disk it sees.\<close>

definition passes_both :: "id3lib \<Rightarrow> server \<Rightarrow> request \<Rightarrow> bool" where
  "passes_both L s r =
     (case r of (file, now, rnd) \<Rightarrow>
        (case upload_single (cwd s) (files s) file now rnd of
           Inl e \<Rightarrow> False
         | Inr (filename, disk) \<Rightarrow>
             let s1 = delete_last_uploaded (s\<lparr>files := disk\<rparr>);
                 filePath = path_join [cwd s, ''uploads'', filename]
             in checkMagicNumber s1 filePath = Invoked True
                \<and> fst (parseMP3Metadata L s1 filePath) = Invoked True))"



text \<open>A request passes the middleware when \<open>upload_single\<close> goes through its three tests.\<close>

definition accepted :: "upload_file \<Rightarrow> bool" where
  "accepted file =
     (fieldname file = ''mp3file'' \<and> fileFilter file \<and> within_fileSize (file_size file))"

section \<open>The handler, one callback at a time\<close>

text \<open>
  JavaScript runs a callback to its end before the next one starts, and callbacks of other
  requests may run between two callbacks of one request.  The handler of part_000 is
  three such parts: its synchronous body up to the call of \<^verbatim>\<open>readFile\<close> (lines 72 to 79
  with 131 to 132); the callback of \<^verbatim>\<open>readFile\<close>, which on a match enters
  \<^verbatim>\<open>parseMP3Metadata\<close> and stops at its \<^verbatim>\<open>await\<close> (lines 132 to 136, 80 to 81, 119 to
  121); and the rest of \<^verbatim>\<open>parseMP3Metadata\<close> with the callback it calls (lines 122 to 127,
  82 to 87).  A stage says which part of a request comes next.  The un-awaited
  \<^verbatim>\<open>deleteFile\<close> is taken as done by the end of the part that issues it.
\<close>

datatype stage =
    Received string
  | AwaitRead string path
  | AwaitParse string path
  | Finished outcome

fun handler_step :: "id3lib \<Rightarrow> stage \<times> server \<Rightarrow> stage \<times> server" where
  "handler_step L (Received filename, s) =
     (let filePath = path_join [cwd s, ''uploads'', filename]
      in (AwaitRead filename filePath, delete_last_uploaded s))"
| "handler_step L (AwaitRead filename filePath, s) =
     (case checkMagicNumber s filePath of
        Thrown \<Rightarrow> (Finished Uncaught, s)
      | NotInvoked \<Rightarrow> (Finished NoResponse, s)
      | Invoked result \<Rightarrow>
          (if result = True then (AwaitParse filename filePath, s)
           else (Finished NoResponse, deleteFile s filePath)))"
| "handler_step L (AwaitParse filename filePath, s) =
     (case parseMP3Metadata L s filePath of
        (Invoked parseResult, s2) \<Rightarrow>
          (if parseResult = True
           then (Finished (Responded (Json (''/uploads/'' @ filename))),
                 s2\<lparr>currentFilePath := Some filePath\<rparr>)
           else (Finished (Responded (Status 500 ''Error while parsing the file.'')), s2))
      | (NotInvoked, s2) \<Rightarrow> (Finished NoResponse, s2)
      | (Thrown, s2) \<Rightarrow> (Finished Uncaught, s2))"
| "handler_step L (Finished out, s) = (Finished out, s)"

text \<open>One request on its own: its parts one after the other.\<close>

primrec handler_run :: "id3lib \<Rightarrow> nat \<Rightarrow> stage \<times> server \<Rightarrow> stage \<times> server" where
  "handler_run L 0 c = c"
| "handler_run L (Suc n) c = handler_run L n (handler_step L c)"

text \<open>The middleware hands an accepted request to the handler.\<close>

definition receive :: "server \<Rightarrow> upload_file \<Rightarrow> nat \<Rightarrow> nat \<Rightarrow> stage \<times> server" where
  "receive s file now rnd =
     (case upload_single (cwd s) (files s) file now rnd of
        Inl e \<Rightarrow> (Finished (Rejected e), s)
      | Inr (filename, disk) \<Rightarrow> (Received filename, s\<lparr>files := disk\<rparr>))"

text \<open>Several requests in flight: the schedule names, callback by callback, the request
  whose next part runs.\<close>

fun interleave :: "id3lib \<Rightarrow> nat list \<Rightarrow> stage list \<times> server \<Rightarrow> stage list \<times> server" where
  "interleave L [] c = c"
| "interleave L (i # schedule) (stages, s) =
     (if i < length stages
      then (case handler_step L (stages ! i, s) of
              (st, s') \<Rightarrow> interleave L schedule (stages[i := st], s'))
      else interleave L schedule (stages, s))"

text \<open>The same parts in part_001 (lines 126 to 138 with 114; 114 to 119, 139 to 141, 99 to
  101; 102 to 109, 142 to 148).\<close>

fun handler_step_001 :: "id3lib \<Rightarrow> stage \<times> server_001 \<Rightarrow> stage \<times> server_001" where
  "handler_step_001 L (Received filename, s) =
     (let filePath = path_join [cwd_001 s, ''uploads'', filename]
      in (case (if lastFile s \<noteq> [] then unlink_001 s (lastFile s) else Some s) of
            None \<Rightarrow> (Finished Uncaught, s\<lparr>lastFile := filePath\<rparr>)
          | Some s1 \<Rightarrow> (AwaitRead filename filePath, s1\<lparr>lastFile := filePath\<rparr>)))"
| "handler_step_001 L (AwaitRead filename filePath, s) =
     (case checkMagicNumber_001 s filePath of
        Thrown \<Rightarrow> (Finished Uncaught, s)
      | NotInvoked \<Rightarrow> (Finished NoResponse, s)
      | Invoked result \<Rightarrow>
          (if result = True then (AwaitParse filename filePath, s)
           else (case unlink_001 s filePath of
                   None \<Rightarrow> (Finished Uncaught, s)
                 | Some s3 \<Rightarrow> (Finished NoResponse, s3))))"
| "handler_step_001 L (AwaitParse filename filePath, s) =
     (case parseMP3Metadata_001 L s filePath of
        (Fulfilled, s3) \<Rightarrow> (Finished (Responded (Json (''/uploads/'' @ filename))), s3)
      | (Failed, s3) \<Rightarrow>
          (Finished (Responded (Status 500 ''Error while parsing the file.'')), s3)
      | (Escaped, s3) \<Rightarrow> (Finished Uncaught, s3))"
| "handler_step_001 L (Finished out, s) = (Finished out, s)"

primrec handler_run_001 ::
  "id3lib \<Rightarrow> nat \<Rightarrow> stage \<times> server_001 \<Rightarrow> stage \<times> server_001" where
  "handler_run_001 L 0 c = c"
| "handler_run_001 L (Suc n) c = handler_run_001 L n (handler_step_001 L c)"

section \<open>Sample inputs\<close>

text \<open>A stand-in for the two libraries, for evaluating the model: a file parses when it has
  at least ten bytes, and stripping removes every leading ten-byte block that starts with
  the tag signature.  A file counts as tagged when it starts with the signature.\<close>

fun strip_id3 :: "byte list \<Rightarrow> byte list" where
  "strip_id3 (a # b # c # rest) =
     (if a = 0x49 \<and> b = 0x44 \<and> c = 0x33 then strip_id3 (drop 7 rest) else a # b # c # rest)"
| "strip_id3 data = data"

definition has_id3 :: "byte list \<Rightarrow> bool" where
  "has_id3 data = (take 3 data = [0x49, 0x44, 0x33])"

definition sample_lib :: id3lib where
  "sample_lib = \<lparr>parseFile = (\<lambda>data. 10 \<le> length data), removeTags = (\<lambda>data. Some (strip_id3 data))\<rparr>"

text \<open>A tagged file that parses, a tagged file too short to parse, a file without the
  signature, and the first of them under a name the browser's pattern refuses.\<close>

definition good_mp3 :: upload_file where
  "good_mp3 = \<lparr>fieldname = ''mp3file'', originalname = ''track-01.mp3'',
     mimetype = ''audio/mpeg'', content = [0x49, 0x44, 0x33, 3, 0, 0, 0, 0, 0, 0, 0xFF, 0xFB, 0x90]\<rparr>"

definition truncated_mp3 :: upload_file where
  "truncated_mp3 = \<lparr>fieldname = ''mp3file'', originalname = ''track-02.mp3'',
     mimetype = ''audio/mpeg'', content = [0x49, 0x44, 0x33, 3, 0]\<rparr>"

definition not_mp3 :: upload_file where
  "not_mp3 = \<lparr>fieldname = ''mp3file'', originalname = ''track-01.mp3'',
     mimetype = ''audio/mpeg'', content = [0, 0, 0]\<rparr>"

definition traversal_mp3 :: upload_file where
  "traversal_mp3 = good_mp3\<lparr>originalname := ''../../etc/passwd.mp3''\<rparr>"

text \<open>The first file again, with seven million bytes.\<close>

definition oversize_mp3 :: upload_file where
  "oversize_mp3 = good_mp3\<lparr>content := replicate 7000000 0\<rparr>"

text \<open>The server after its first request, \<open>good_mp3\<close> at clock 5 with random number 7.\<close>

definition published :: server where
  "published = snd (upload_route sample_lib (startup ''/app'' Map.empty) good_mp3 5 7)"

text \<open>The earlier server after the same first request, and after \<open>truncated_mp3\<close> as first
  request.\<close>

definition published_001 :: server_001 where
  "published_001 =
     snd (upload_route_001 sample_lib (startup_001 ''/app'' Map.empty) good_mp3 5 7)"

definition unparsed_001 :: server_001 where
  "unparsed_001 =
     snd (upload_route_001 sample_lib (startup_001 ''/app'' Map.empty) truncated_mp3 5 7)"

text \<open>\<open>published\<close> with \<open>not_mp3\<close> staged by the next request, as the handler receives it.\<close>

definition not_mp3_staged :: server where
  "not_mp3_staged = published\<lparr>files := (files published)(''/app/uploads/mp3file-6-8'' \<mapsto> [0, 0, 0])\<rparr>"

text \<open>Two requests with \<open>good_mp3\<close>, both staged before the handler of either has
  started.\<close>

definition first_received :: "stage \<times> server" where
  "first_received = receive (startup ''/app'' Map.empty) good_mp3 5 7"

definition second_received :: "stage \<times> server" where
  "second_received = receive (snd first_received) good_mp3 6 8"

definition two_in_flight :: "stage list \<times> server" where
  "two_in_flight = ([fst first_received, fst second_received], snd second_received)"

lemmas model_defs =
  upload_route_def upload_single_def fileFilter_def within_fileSize_def fileSize_def
  file_size_def startup_def storage_filename_def storage_destination_def digit_def
  upload_handler_def delete_last_uploaded_def deleteFile_def checkMagicNumber_def
  toString_hex_def hex_byte_def parseMP3Metadata_def staged_path_def accepted_def Let_def

lemmas model_001_defs =
  upload_route_001_def upload_handler_001_def unlink_001_def checkMagicNumber_001_def
  parseMP3Metadata_001_def catch_001_def startup_001_def

lemmas sample_defs =
  sample_lib_def good_mp3_def truncated_mp3_def not_mp3_def traversal_mp3_def has_id3_def

section \<open>Facts about the encodings\<close>

lemma below_16: "n < 16 \<Longrightarrow> n \<in> {0,1,2,3,4,5,6,7,8,9,10,11,12,13,14,15::nat}"
  by simp arith

lemma hexval_digit: "n < 16 \<Longrightarrow> hexval (digit n) = n"
  by (drule below_16) (auto simp: hexval_def digit_def)

lemma hex_byte_inj: "hex_byte a = hex_byte b \<Longrightarrow> a = b"
proof -
  assume h: "hex_byte a = hex_byte b"
  have "hexval (digit (unat a div 16)) = hexval (digit (unat b div 16))"
    and "hexval (digit (unat a mod 16)) = hexval (digit (unat b mod 16))"
    using h by (simp_all add: hex_byte_def)
  moreover have "unat a div 16 < 16" "unat b div 16 < 16"
    using unsigned_less[of a, where 'a=nat] unsigned_less[of b, where 'a=nat] by simp_all
  ultimately have "unat a div 16 = unat b div 16" "unat a mod 16 = unat b mod 16"
    by (simp_all add: hexval_digit)
  then have "unat a = unat b" by (metis div_mult_mod_eq)
  then show "a = b" by (simp add: word_unat_eq_iff)
qed

lemma concat_hex_inj: "concat (map hex_byte xs) = concat (map hex_byte ys) \<Longrightarrow> xs = ys"
proof (induction xs arbitrary: ys)
  case Nil
  then show ?case by (cases ys) (simp_all add: hex_byte_def)
next
  case (Cons x xs)
  then obtain y ys' where ys: "ys = y # ys'" by (cases ys) (simp_all add: hex_byte_def)
  have len: "length (hex_byte x) = length (hex_byte y)" by (simp add: hex_byte_def)
  from Cons.prems ys
  have "hex_byte x @ concat (map hex_byte xs) = hex_byte y @ concat (map hex_byte ys')"
    by simp
  with len have "hex_byte x = hex_byte y" "concat (map hex_byte xs) = concat (map hex_byte ys')"
    by simp_all
  with Cons.IH ys show ?case by (simp add: hex_byte_inj)
qed

text \<open>The comparison \<^verbatim>\<open>data.toString('hex', 0, 3) == "494433"\<close> holds exactly when the file
  starts with the three bytes 49 44 33 (a file shorter than three bytes never does).\<close>

lemma magic_hex: "(toString_hex data 0 3 = ''494433'') = (take 3 data = [0x49, 0x44, 0x33])"
proof -
  have h: "''494433'' = concat (map hex_byte [0x49, 0x44, 0x33])"
    by (simp add: hex_byte_def digit_def)
  show ?thesis
  proof
    assume "toString_hex data 0 3 = ''494433''"
    then have "concat (map hex_byte (take 3 data)) = concat (map hex_byte [0x49, 0x44, 0x33])"
      by (simp only: h toString_hex_def) simp
    then show "take 3 data = [0x49, 0x44, 0x33]" by (rule concat_hex_inj)
  next
    assume "take 3 data = [0x49, 0x44, 0x33]"
    then show "toString_hex data 0 3 = ''494433''"
      by (simp add: toString_hex_def hex_byte_def digit_def)
  qed
qed

section \<open>The route, case by case\<close>

lemma staged_dest:
  "path_join [storage_destination dir, filename] = path_join [dir, ''uploads'', filename]"
  by (simp add: storage_destination_def)

lemma upload_single_accepted:
  "accepted file \<Longrightarrow>
   upload_single dir disk file now rnd =
     Inr (storage_filename file now rnd,
          disk(path_join [dir, ''uploads'', storage_filename file now rnd] \<mapsto> content file))"
  by (simp add: upload_single_def accepted_def staged_dest Let_def del: path_join.simps)


lemma route_accepted:
  "accepted file \<Longrightarrow>
   upload_route L s file now rnd =
     upload_handler L (s\<lparr>files := (files s)(staged_path s file now rnd \<mapsto> content file)\<rparr>)
       (storage_filename file now rnd)"
  by (simp add: upload_route_def upload_single_accepted staged_path_def del: path_join.simps)

lemma route_refused:
  "\<not> accepted file \<Longrightarrow> \<exists>e. upload_route L s file now rnd = (Rejected e, s)"
  by (auto simp: upload_route_def upload_single_def accepted_def)

lemma checkMagicNumber_cases:
  "checkMagicNumber s p =
     (case files s p of None \<Rightarrow> Thrown
      | Some data \<Rightarrow> if take 3 data = [0x49, 0x44, 0x33] then Invoked True else NotInvoked)"
  by (simp add: checkMagicNumber_def magic_hex split: option.splits)

lemma checkMagicNumber_001_cases:
  "checkMagicNumber_001 s p =
     (case files_001 s p of None \<Rightarrow> Thrown
      | Some data \<Rightarrow> if take 3 data = [0x49, 0x44, 0x33] then Invoked True else NotInvoked)"
  by (simp add: checkMagicNumber_001_def magic_hex split: option.splits)

lemma staged_path_nonempty: "staged_path s file now rnd \<noteq> []"
  by (simp add: staged_path_def)

lemma files_delete_last_uploaded:
  "files (delete_last_uploaded s) q =
     (if currentFilePath s = Some q \<and> q \<noteq> [] then None else files s q)"
  by (auto simp: delete_last_uploaded_def deleteFile_def split: option.splits)

lemma slot_delete_last_uploaded [simp]:
  "currentFilePath (delete_last_uploaded s) = currentFilePath s"
  "cwd (delete_last_uploaded s) = cwd s"
  by (auto simp: delete_last_uploaded_def deleteFile_def split: option.splits)

lemma files_staged:
  "files (staged s file now rnd) q =
     (if currentFilePath s = Some q \<and> q \<noteq> [] then None
      else if q = staged_path s file now rnd then Some (content file) else files s q)"
  by (simp add: staged_def files_delete_last_uploaded)

lemma slot_staged [simp]: "currentFilePath (staged s file now rnd) = currentFilePath s"
  by (simp add: staged_def)

text \<open>What the route does with a request that passed the middleware.  The first case is a
  stored name equal to the one in the slot: the handler deletes the file it is about to
  read.\<close>

lemma route_outcome:
  assumes "accepted file"
  shows "upload_route L s file now rnd =
    (if currentFilePath s = Some (staged_path s file now rnd)
       then (Uncaught, staged s file now rnd)
     else if take 3 (content file) \<noteq> [0x49, 0x44, 0x33]
       then (NoResponse, staged s file now rnd)
     else if parseFile L (content file) then
       (case removeTags L (content file) of
          None \<Rightarrow> (NoResponse, deleteFile (staged s file now rnd) (staged_path s file now rnd))
        | Some stripped \<Rightarrow>
            (Responded (Json (''/uploads/'' @ storage_filename file now rnd)),
             (staged s file now rnd)
               \<lparr>files := (files (staged s file now rnd))(staged_path s file now rnd \<mapsto> stripped),
                currentFilePath := Some (staged_path s file now rnd)\<rparr>))
     else (NoResponse, deleteFile (staged s file now rnd) (staged_path s file now rnd)))"
proof -
  let ?p = "staged_path s file now rnd"
  let ?s1 = "staged s file now rnd"
  have p: "path_join [cwd s, ''uploads'', storage_filename file now rnd] = ?p"
    by (simp add: staged_path_def)
  have read: "files ?s1 ?p = (if currentFilePath s = Some ?p then None else Some (content file))"
    using staged_path_nonempty [of s "file" now rnd]
    by (simp add: staged_def files_delete_last_uploaded)
  show ?thesis
    unfolding route_accepted [OF assms] upload_handler_def
    apply (simp only: Let_def)
    apply (simp add: p staged_def[symmetric] checkMagicNumber_cases parseMP3Metadata_def read
        del: path_join.simps split: option.splits)
    done
qed

section \<open>The sample run\<close>

lemma published_eq:
  "published = \<lparr>cwd = ''/app'', files = [''/app/uploads/mp3file-5-7'' \<mapsto> [0xFF, 0xFB, 0x90]],
     currentFilePath = Some ''/app/uploads/mp3file-5-7''\<rparr>"
  by (simp add: published_def model_defs sample_defs decimal.simps)

lemma published_001_eq:
  "published_001 = \<lparr>cwd_001 = ''/app'',
     files_001 = [''/app/uploads/mp3file-5-7'' \<mapsto> [0xFF, 0xFB, 0x90]],
     lastFile = ''/app/uploads/mp3file-5-7''\<rparr>"
  by (simp add: published_001_def model_defs model_001_defs sample_defs decimal.simps)

lemma unparsed_001_eq:
  "unparsed_001 = \<lparr>cwd_001 = ''/app'', files_001 = Map.empty,
     lastFile = ''/app/uploads/mp3file-5-7''\<rparr>"
  by (simp add: unparsed_001_def model_defs model_001_defs sample_defs decimal.simps)

lemma sample_accepted:
  "accepted good_mp3" "accepted truncated_mp3" "accepted not_mp3" "accepted traversal_mp3"
  by (simp_all add: accepted_def sample_defs fileFilter_def within_fileSize_def fileSize_def
      file_size_def)

lemma sample_paths:
  "staged_path published file 5 7 = cwd published @ ''/uploads/'' @ fieldname file @ ''-5-7''"
  "staged_path published file 6 8 = cwd published @ ''/uploads/'' @ fieldname file @ ''-6-8''"
  by (simp_all add: staged_path_def storage_filename_def decimal.simps digit_def)

lemma sample_decimals:
  "decimal 5 = ''5''" "decimal 6 = ''6''" "decimal 7 = ''7''" "decimal 8 = ''8''"
  by (simp_all add: decimal.simps digit_def)

lemma oversize_mp3_fields:
  "fieldname oversize_mp3 = ''mp3file''" "mimetype oversize_mp3 = ''audio/mpeg''"
  "file_size oversize_mp3 = 7000000"
    apply (simp add: oversize_mp3_def good_mp3_def)
   apply (simp add: oversize_mp3_def good_mp3_def)
  apply (simp only: oversize_mp3_def file_size_def upload_file.select_convs
      upload_file.update_convs good_mp3_def length_replicate)
  done

lemma strip_untagged: "\<not> has_id3 (strip_id3 data)"
  by (induction data rule: strip_id3.induct) (auto simp: has_id3_def)


lemma good_mp3_after_published:
  "upload_route sample_lib published good_mp3 6 8 =
     (Responded (Json ''/uploads/mp3file-6-8''),
      \<lparr>cwd = ''/app'', files = [''/app/uploads/mp3file-6-8'' \<mapsto> [0xFF, 0xFB, 0x90]],
        currentFilePath = Some ''/app/uploads/mp3file-6-8''\<rparr>)"
  apply (simp add: route_outcome sample_accepted sample_paths)
  apply (simp add: published_eq good_mp3_def sample_lib_def staged_def delete_last_uploaded_def
      deleteFile_def staged_path_def storage_filename_def sample_decimals)
  done

lemma truncated_mp3_after_published:
  "upload_route sample_lib published truncated_mp3 6 8 =
     (NoResponse, \<lparr>cwd = ''/app'', files = Map.empty,
        currentFilePath = Some ''/app/uploads/mp3file-5-7''\<rparr>)"
  apply (simp add: route_outcome sample_accepted sample_paths)
  apply (simp add: published_eq truncated_mp3_def sample_lib_def staged_def
      delete_last_uploaded_def deleteFile_def staged_path_def storage_filename_def
      sample_decimals)
  done

lemma not_mp3_after_published:
  "upload_route L published not_mp3 6 8 =
     (NoResponse, \<lparr>cwd = ''/app'', files = [''/app/uploads/mp3file-6-8'' \<mapsto> [0, 0, 0]],
        currentFilePath = Some ''/app/uploads/mp3file-5-7''\<rparr>)"
  apply (simp add: route_outcome sample_accepted sample_paths)
  apply (simp add: published_eq not_mp3_def staged_def delete_last_uploaded_def deleteFile_def
      staged_path_def storage_filename_def sample_decimals)
  done

section \<open>Consequences of the case analysis\<close>

lemma route_files_previous:
  assumes "accepted file" and "currentFilePath s = Some previous" and "previous \<noteq> []"
  shows "files (snd (upload_route L s file now rnd)) previous = None"
  using assms
  by (auto simp: route_outcome files_staged deleteFile_def split: option.splits)

lemma passes_both_accepted:
  assumes "accepted file"
  shows "passes_both L s (file, now, rnd) =
     (currentFilePath s \<noteq> Some (staged_path s file now rnd)
      \<and> take 3 (content file) = [0x49, 0x44, 0x33]
      \<and> parseFile L (content file) \<and> removeTags L (content file) \<noteq> None)"
proof -
  have p: "path_join [cwd s, ''uploads'', storage_filename file now rnd] = staged_path s file now rnd"
    by (simp add: staged_path_def)
  have read: "files (staged s file now rnd) (staged_path s file now rnd)
      = (if currentFilePath s = Some (staged_path s file now rnd) then None else Some (content file))"
    using staged_path_nonempty [of s "file" now rnd] by (simp add: files_staged)
  show ?thesis
    unfolding passes_both_def
    apply (simp only: prod.case upload_single_accepted [OF assms] sum.case Let_def p)
    apply (simp add: staged_def [symmetric] checkMagicNumber_cases parseMP3Metadata_def read
        split: option.splits)
    done
qed




lemma handler_silent:
  "checkMagicNumber (delete_last_uploaded s) (path_join [cwd s, ''uploads'', filename]) \<noteq> Invoked True
   \<Longrightarrow> \<not> responded (fst (upload_handler L s filename))"
  by (auto simp: upload_handler_def Let_def checkMagicNumber_cases simp del: path_join.simps
      split: option.splits if_splits cb.splits)

lemma regexName_test_iff:
  "regexName_test name = (\<exists>stem. stem \<noteq> [] \<and> list_all name_char stem \<and> name = stem @ ''.mp3'')"
proof
  assume r: "regexName_test name"
  let ?n = "length name"
  from r have n: "4 < ?n" and d: "drop (?n - 4) name = ''.mp3''"
    and a: "list_all name_char (take (?n - 4) name)"
    by (simp_all add: regexName_test_def Let_def)
  have "name = take (?n - 4) name @ ''.mp3''"
    using d append_take_drop_id [of "?n - 4" name] by simp
  moreover have "take (?n - 4) name \<noteq> []" using n by auto
  ultimately show "\<exists>stem. stem \<noteq> [] \<and> list_all name_char stem \<and> name = stem @ ''.mp3''"
    using a by blast
next
  assume "\<exists>stem. stem \<noteq> [] \<and> list_all name_char stem \<and> name = stem @ ''.mp3''"
  then obtain stem where "stem \<noteq> []" "list_all name_char stem" "name = stem @ ''.mp3''" by blast
  then show "regexName_test name"
    by (cases stem) (simp_all add: regexName_test_def Let_def)
qed

lemma isl_upload_single: "isl (upload_single dir disk file now rnd) = (\<not> accepted file)"
  by (auto simp: upload_single_def accepted_def Let_def)

section \<open>The earlier server, case by case\<close>

lemma accepted_001:
  "accepted file \<Longrightarrow>
   upload_route_001 L t file now rnd =
     upload_handler_001 L
       (t\<lparr>files_001 := (files_001 t)(path_join [cwd_001 t, ''uploads'', storage_filename file now rnd]
           \<mapsto> content file)\<rparr>)
       (storage_filename file now rnd)"
  by (simp add: upload_route_001_def upload_single_accepted del: path_join.simps)

text \<open>part_001 deletes the previous file first as well.\<close>

lemma previous_deleted_001:
  assumes "accepted file" and "lastFile t = previous" and "previous \<noteq> []"
  shows "files_001 (snd (upload_route_001 L t file now rnd)) previous = None"
  using assms
  unfolding accepted_001 [OF assms(1)] upload_handler_001_def
  by (auto simp: Let_def unlink_001_def checkMagicNumber_001_cases parseMP3Metadata_001_def
      catch_001_def simp del: path_join.simps split: option.splits if_splits)

text \<open>In part_001 a file that fails to parse is deleted and then reported as uploaded: the
  \<^verbatim>\<open>catch\<close> block of \<^verbatim>\<open>parseMP3Metadata\<close> swallows the error, so \<^verbatim>\<open>.then\<close> runs.\<close>

lemma parse_failure_001_reports_success:
  assumes "accepted file" and "take 3 (content file) = [0x49, 0x44, 0x33]"
    and "\<not> parseFile L (content file)" and "lastFile t = []"
  shows "fst (upload_route_001 L t file now rnd)
           = Responded (Json (''/uploads/'' @ storage_filename file now rnd))
    \<and> files_001 (snd (upload_route_001 L t file now rnd))
         (path_join [cwd_001 t, ''uploads'', storage_filename file now rnd]) = None"
  using assms
  unfolding accepted_001 [OF assms(1)] upload_handler_001_def
  by (auto simp: Let_def unlink_001_def checkMagicNumber_001_cases parseMP3Metadata_001_def
      catch_001_def simp del: path_join.simps split: option.splits if_splits)

text \<open>In part_001, too, no response is sent when \<^verbatim>\<open>checkMagicNumber\<close> does not call back.\<close>

lemma handler_001_silent:
  "(\<And>t1. (if lastFile t \<noteq> [] then unlink_001 t (lastFile t) else Some t) = Some t1 \<Longrightarrow>
      checkMagicNumber_001 (t1\<lparr>lastFile := path_join [cwd_001 t, ''uploads'', filename]\<rparr>)
        (path_join [cwd_001 t, ''uploads'', filename]) \<noteq> Invoked True)
   \<Longrightarrow> \<not> responded (fst (upload_handler_001 L t filename))"
  by (auto simp: upload_handler_001_def Let_def checkMagicNumber_001_cases simp del: path_join.simps
      split: option.splits if_splits cb.splits)

text \<open>In part_001 the request after such an upload ends the process: \<^verbatim>\<open>lastFile\<close> names a
  file that is gone, and the callback of \<^verbatim>\<open>fs.unlink\<close> rethrows the error.\<close>

lemma stale_lastFile_escapes_001:
  assumes "accepted file" and "lastFile t \<noteq> []" and "files_001 t (lastFile t) = None"
    and "lastFile t \<noteq> path_join [cwd_001 t, ''uploads'', storage_filename file now rnd]"
  shows "fst (upload_route_001 L t file now rnd) = Uncaught"
  using assms
  unfolding accepted_001 [OF assms(1)] upload_handler_001_def
  by (auto simp: Let_def unlink_001_def simp del: path_join.simps split: option.splits if_splits)

lemma stale_lastFile_sample:
  "fst (upload_route_001 sample_lib unparsed_001 good_mp3 6 8) = Uncaught"
proof (rule stale_lastFile_escapes_001)
  show "accepted good_mp3" by (rule sample_accepted)
qed (simp_all add: unparsed_001_eq storage_filename_def good_mp3_def sample_decimals)

section \<open>The handler in parts\<close>

lemma three_parts:
  "handler_run L 3 c = handler_step L (handler_step L (handler_step L c))"
  "handler_run_001 L 3 d = handler_step_001 L (handler_step_001 L (handler_step_001 L d))"
  by (simp_all add: eval_nat_numeral)

text \<open>Run without anything in between, the three parts are the handler.\<close>

lemma handler_steps:
  "handler_run L 3 (Received filename, s) =
     (Finished (fst (upload_handler L s filename)), snd (upload_handler L s filename))"
  by (auto simp: three_parts upload_handler_def Let_def simp del: path_join.simps
      split: cb.splits prod.splits)

lemma handler_steps_001:
  "handler_run_001 L 3 (Received filename, t) =
     (Finished (fst (upload_handler_001 L t filename)), snd (upload_handler_001 L t filename))"
  by (auto simp: three_parts upload_handler_001_def Let_def simp del: path_join.simps
      split: cb.splits prod.splits option.splits settled.splits)

lemma route_steps:
  "handler_run L 3 (receive s file now rnd) =
     (Finished (fst (upload_route L s file now rnd)), snd (upload_route L s file now rnd))"
  by (auto simp: receive_def upload_route_def handler_steps simp del: path_join.simps
      split: sum.splits) (simp add: three_parts)

text \<open>No part of a handler creates a file: it deletes, or rewrites a file it has read.\<close>

lemma parse_creates_nothing:
  "files s q = None \<Longrightarrow> files (snd (parseMP3Metadata L s p)) q = None"
  by (auto simp: parseMP3Metadata_def deleteFile_def split: option.splits)

lemma step_creates_nothing:
  "files (snd c) q = None \<Longrightarrow> files (snd (handler_step L c)) q = None"
proof (cases c)
  case (Pair st s)
  assume a: "files (snd c) q = None"
  show ?thesis
  proof (cases st)
    case (Received filename)
    with Pair a show ?thesis by (simp add: Let_def files_delete_last_uploaded del: path_join.simps)
  next
    case (AwaitRead filename p)
    with Pair a show ?thesis by (auto simp: deleteFile_def split: cb.splits)
  next
    case (AwaitParse filename p)
    with Pair a parse_creates_nothing [of s q L p] show ?thesis
      by (auto split: cb.splits prod.splits)
  next
    case (Finished out)
    with Pair a show ?thesis by simp
  qed
qed

lemma run_creates_nothing:
  "files (snd c) q = None \<Longrightarrow> files (snd (handler_run L n c)) q = None"
  by (induction n arbitrary: c) (simp_all add: step_creates_nothing)

lemma parse_creates_nothing_001:
  "files_001 t q = None \<Longrightarrow> files_001 (snd (parseMP3Metadata_001 L t p)) q = None"
  by (auto simp: parseMP3Metadata_001_def catch_001_def unlink_001_def split: option.splits)

lemma step_creates_nothing_001:
  "files_001 (snd c) q = None \<Longrightarrow> files_001 (snd (handler_step_001 L c)) q = None"
proof (cases c)
  case (Pair st t)
  assume a: "files_001 (snd c) q = None"
  show ?thesis
  proof (cases st)
    case (Received filename)
    with Pair a show ?thesis
      by (auto simp: Let_def unlink_001_def simp del: path_join.simps split: option.splits)
  next
    case (AwaitRead filename p)
    with Pair a show ?thesis by (auto simp: unlink_001_def split: cb.splits option.splits)
  next
    case (AwaitParse filename p)
    with Pair a parse_creates_nothing_001 [of t q L p] show ?thesis
      by (auto split: settled.splits prod.splits)
  next
    case (Finished out)
    with Pair a show ?thesis by simp
  qed
qed

lemma run_creates_nothing_001:
  "files_001 (snd c) q = None \<Longrightarrow> files_001 (snd (handler_run_001 L n c)) q = None"
  by (induction n arbitrary: c) (simp_all add: step_creates_nothing_001)

lemma two_in_flight_eq:
  "two_in_flight =
     ([Received ''mp3file-5-7'', Received ''mp3file-6-8''],
      \<lparr>cwd = ''/app'',
       files = [''/app/uploads/mp3file-5-7'' \<mapsto> content good_mp3,
                ''/app/uploads/mp3file-6-8'' \<mapsto> content good_mp3],
       currentFilePath = None\<rparr>)"
  by (simp add: two_in_flight_def second_received_def first_received_def receive_def
      upload_single_accepted sample_accepted startup_def storage_filename_def sample_decimals)
    (simp add: good_mp3_def)

text \<open>In part_001 the unreachable branch is the \<^verbatim>\<open>fs.unlink\<close> under \<^verbatim>\<open>Deleting invalid file\<close>.\<close>

lemma bad_signature_001_file_left:
  assumes "accepted file" and "take 3 (content file) \<noteq> [0x49, 0x44, 0x33]"
    and "lastFile t = []"
  shows "checkMagicNumber_001 t' p \<noteq> Invoked False
    \<and> fst (upload_route_001 L t file now rnd) = NoResponse
    \<and> files_001 (snd (upload_route_001 L t file now rnd))
         (path_join [cwd_001 t, ''uploads'', storage_filename file now rnd]) = Some (content file)"
  using assms
  unfolding accepted_001 [OF assms(1)] upload_handler_001_def
  by (auto simp: Let_def checkMagicNumber_001_cases simp del: path_join.simps
      split: option.splits if_splits)

section \<open>C1: when the previous file is deleted\<close>

text \<open>
  C1 says that the previous file is deleted only after the new upload has passed the
  signature check and the sanitization.  The handler does it the other way round: its first
  statement after computing the path is the deletion of the file named by the slot, and the
  checks run on the disk that results.  Here the claim fails: the slot names a file that is
  served, the next request carries a file without the signature, and afterwards the served
  file is gone although nothing has been verified.
\<close>

theorem previous_deleted_though_unverified:
  "files published ''/app/uploads/mp3file-5-7'' = Some [0xFF, 0xFB, 0x90]
   \<and> currentFilePath published = Some ''/app/uploads/mp3file-5-7''
   \<and> \<not> passes_both sample_lib published (not_mp3, 6, 8)
   \<and> fst (upload_route sample_lib published not_mp3 6 8) = NoResponse
   \<and> files (snd (upload_route sample_lib published not_mp3 6 8)) ''/app/uploads/mp3file-5-7'' = None"
  apply (simp add: not_mp3_after_published)
  apply (simp add: published_eq passes_both_accepted sample_accepted)
  apply (simp add: not_mp3_def)
  done

text \<open>
  C1 as amended: whenever the handler of an upload starts while the slot names a previous
  file, it deletes that file in its first, synchronous part and does nothing else there:
  the read callback of \<^verbatim>\<open>checkMagicNumber\<close> and the metadata parse are still to come, so
  the deletion precedes both checks and does not depend on what they give; in the rest of
  the request, handled on its own, the file stays absent.  The three parts, run one after
  the other, are the handler.  part_001 does the same with the file named by \<^verbatim>\<open>lastFile\<close>
  (when that file is already gone its first part ends with the rethrown error instead).
\<close>

theorem previous_file_deleted_before_checks:
  assumes "previous \<noteq> []"
  shows "(currentFilePath s = Some previous \<longrightarrow>
            handler_step L (Received filename, s)
              = (AwaitRead filename (path_join [cwd s, ''uploads'', filename]), deleteFile s previous)
            \<and> (\<forall>n. files (snd (handler_run L (Suc n) (Received filename, s))) previous = None))
    \<and> handler_run L 3 (Received filename, s)
         = (Finished (fst (upload_handler L s filename)), snd (upload_handler L s filename))
    \<and> (lastFile t = previous \<longrightarrow>
            handler_step_001 L (Received filename, t)
              = (if files_001 t previous = None
                 then (Finished Uncaught,
                       t\<lparr>lastFile := path_join [cwd_001 t, ''uploads'', filename]\<rparr>)
                 else (AwaitRead filename (path_join [cwd_001 t, ''uploads'', filename]),
                       t\<lparr>files_001 := (files_001 t)(previous := None),
                         lastFile := path_join [cwd_001 t, ''uploads'', filename]\<rparr>))
            \<and> (\<forall>n. files_001 (snd (handler_run_001 L (Suc n) (Received filename, t))) previous = None))
    \<and> handler_run_001 L 3 (Received filename, t)
         = (Finished (fst (upload_handler_001 L t filename)), snd (upload_handler_001 L t filename))"
proof (intro conjI impI allI)
  assume c: "currentFilePath s = Some previous"
  show first: "handler_step L (Received filename, s)
      = (AwaitRead filename (path_join [cwd s, ''uploads'', filename]), deleteFile s previous)"
    using c assms by (simp add: Let_def delete_last_uploaded_def del: path_join.simps)
  fix n
  have "files (snd (handler_step L (Received filename, s))) previous = None"
    unfolding first by (simp add: deleteFile_def)
  then show "files (snd (handler_run L (Suc n) (Received filename, s))) previous = None"
    by (simp add: run_creates_nothing)
next
  show "handler_run L 3 (Received filename, s)
         = (Finished (fst (upload_handler L s filename)), snd (upload_handler L s filename))"
    by (rule handler_steps)
next
  assume l: "lastFile t = previous"
  show "handler_step_001 L (Received filename, t)
      = (if files_001 t previous = None
         then (Finished Uncaught, t\<lparr>lastFile := path_join [cwd_001 t, ''uploads'', filename]\<rparr>)
         else (AwaitRead filename (path_join [cwd_001 t, ''uploads'', filename]),
               t\<lparr>files_001 := (files_001 t)(previous := None),
                 lastFile := path_join [cwd_001 t, ''uploads'', filename]\<rparr>))"
    using l assms
    by (auto simp: Let_def unlink_001_def simp del: path_join.simps split: option.splits)
  fix n
  have "files_001 (snd (handler_step_001 L (Received filename, t))) previous = None"
    using l assms
    by (auto simp: Let_def unlink_001_def simp del: path_join.simps split: option.splits)
  then show "files_001 (snd (handler_run_001 L (Suc n) (Received filename, t))) previous = None"
    by (simp add: run_creates_nothing_001)
next
  show "handler_run_001 L 3 (Received filename, t)
         = (Finished (fst (upload_handler_001 L t filename)), snd (upload_handler_001 L t filename))"
    by (rule handler_steps_001)
qed

theorem previous_file_deleted_before_checks_witness:
  "''/app/uploads/mp3file-5-7'' \<noteq> []
   \<and> currentFilePath not_mp3_staged = Some ''/app/uploads/mp3file-5-7''
   \<and> files not_mp3_staged ''/app/uploads/mp3file-5-7'' = Some [0xFF, 0xFB, 0x90]
   \<and> fst (handler_step sample_lib (Received ''mp3file-6-8'', not_mp3_staged))
       = AwaitRead ''mp3file-6-8'' ''/app/uploads/mp3file-6-8''
   \<and> files (snd (handler_step sample_lib (Received ''mp3file-6-8'', not_mp3_staged)))
        ''/app/uploads/mp3file-5-7'' = None
   \<and> files (snd (upload_handler sample_lib not_mp3_staged ''mp3file-6-8''))
        ''/app/uploads/mp3file-5-7'' = None
   \<and> lastFile published_001 = ''/app/uploads/mp3file-5-7''
   \<and> files_001 published_001 ''/app/uploads/mp3file-5-7'' = Some [0xFF, 0xFB, 0x90]
   \<and> fst (handler_step_001 sample_lib (Received ''mp3file-6-8'', published_001))
       = AwaitRead ''mp3file-6-8'' ''/app/uploads/mp3file-6-8''
   \<and> files_001 (snd (handler_step_001 sample_lib (Received ''mp3file-6-8'', published_001)))
        ''/app/uploads/mp3file-5-7'' = None"
proof -
  let ?prev = "''/app/uploads/mp3file-5-7''"
  have a: "?prev \<noteq> []" by simp
  have b: "currentFilePath not_mp3_staged = Some ?prev" "cwd not_mp3_staged = ''/app''"
    "files not_mp3_staged ?prev = Some [0xFF, 0xFB, 0x90]"
    by (simp_all add: not_mp3_staged_def published_eq)
  have c: "lastFile published_001 = ?prev" "cwd_001 published_001 = ''/app''"
    "files_001 published_001 ?prev = Some [0xFF, 0xFB, 0x90]"
    by (simp_all add: published_001_eq)
  note inst = previous_file_deleted_before_checks [OF a, where s = not_mp3_staged
      and L = sample_lib and filename = "''mp3file-6-8''" and t = published_001]
  from inst b(1) have s1: "handler_step sample_lib (Received ''mp3file-6-8'', not_mp3_staged)
      = (AwaitRead ''mp3file-6-8'' (path_join [cwd not_mp3_staged, ''uploads'', ''mp3file-6-8'']),
         deleteFile not_mp3_staged ?prev)"
    and s2: "files (snd (handler_run sample_lib (Suc 2) (Received ''mp3file-6-8'', not_mp3_staged)))
        ?prev = None"
    and s3: "handler_run sample_lib 3 (Received ''mp3file-6-8'', not_mp3_staged)
      = (Finished (fst (upload_handler sample_lib not_mp3_staged ''mp3file-6-8'')),
         snd (upload_handler sample_lib not_mp3_staged ''mp3file-6-8''))"
    by blast+
  from inst c(1) have t1: "handler_step_001 sample_lib (Received ''mp3file-6-8'', published_001)
      = (if files_001 published_001 ?prev = None
         then (Finished Uncaught,
               published_001\<lparr>lastFile := path_join [cwd_001 published_001, ''uploads'', ''mp3file-6-8'']\<rparr>)
         else (AwaitRead ''mp3file-6-8'' (path_join [cwd_001 published_001, ''uploads'', ''mp3file-6-8'']),
               published_001\<lparr>files_001 := (files_001 published_001)(?prev := None),
                 lastFile := path_join [cwd_001 published_001, ''uploads'', ''mp3file-6-8'']\<rparr>))"
    by blast
  have s2': "files (snd (upload_handler sample_lib not_mp3_staged ''mp3file-6-8'')) ?prev = None"
    using s2 s3 by (simp add: eval_nat_numeral)
  show ?thesis
    unfolding s1 t1 using a b c s2' by (simp add: deleteFile_def)
qed

section \<open>C2: a file without the signature\<close>

text \<open>
  C2 says that a staged file whose first three bytes are not 49 44 33 is deleted and the
  request rejected.  The handler has the deletion, \<^verbatim>\<open>else { deleteFile(filePath) }\<close>, but
  \<^verbatim>\<open>checkMagicNumber\<close> never calls back with anything but \<^verbatim>\<open>true\<close>, so the branch is not
  reached.  The theorem is what the code does on every such request (the stored name
  differing from the one in the slot): the staged file stays on disk and the request gets
  no answer.
\<close>

theorem bad_signature_file_left_on_disk:
  assumes "accepted file" and "take 3 (content file) \<noteq> [0x49, 0x44, 0x33]"
    and "currentFilePath s \<noteq> Some (staged_path s file now rnd)"
  shows "checkMagicNumber s' p \<noteq> Invoked False
    \<and> fst (upload_route L s file now rnd) = NoResponse
    \<and> files (snd (upload_route L s file now rnd)) (staged_path s file now rnd)
        = Some (content file)"
  using assms
  by (auto simp: route_outcome files_staged checkMagicNumber_cases split: option.splits)

theorem bad_signature_file_left_on_disk_witness:
  "accepted not_mp3
   \<and> take 3 (content not_mp3) \<noteq> [0x49, 0x44, 0x33]
   \<and> currentFilePath published \<noteq> Some (staged_path published not_mp3 6 8)
   \<and> staged_path published not_mp3 6 8 = ''/app/uploads/mp3file-6-8''
   \<and> fst (upload_route sample_lib published not_mp3 6 8) = NoResponse
   \<and> files (snd (upload_route sample_lib published not_mp3 6 8)) ''/app/uploads/mp3file-6-8''
       = Some [0, 0, 0]"
proof -
  have a: "accepted not_mp3" by (rule sample_accepted)
  have b: "take 3 (content not_mp3) \<noteq> [0x49, 0x44, 0x33]" by (simp add: not_mp3_def)
  have p: "staged_path published not_mp3 6 8 = ''/app/uploads/mp3file-6-8''"
    by (simp add: sample_paths) (simp add: published_eq not_mp3_def)
  have c: "currentFilePath published \<noteq> Some (staged_path published not_mp3 6 8)"
    unfolding p by (simp add: published_eq)
  have d: "content not_mp3 = [0, 0, 0]" by (simp add: not_mp3_def)
  show ?thesis
    using a b c p d bad_signature_file_left_on_disk [OF a b c, of published "''x''" sample_lib]
    by simp
qed

section \<open>C3: after a successful upload\<close>

text \<open>
  A request handled with no other request in between: when the handler answers with the
  JSON object, the slot holds exactly the path of the new file, the file the slot named
  before is no longer on disk, and the new file is what \<^verbatim>\<open>NodeID3.removeTags\<close> left at its
  path (free of whatever \<open>removeTags\<close> removes).
\<close>

lemma sequential_upload_postcondition:
  assumes "upload_route L s file now rnd = (Responded (Json url), s')"
    and "\<And>data stripped. removeTags L data = Some stripped \<Longrightarrow> \<not> tagged stripped"
  shows "currentFilePath s' = Some (staged_path s file now rnd)
    \<and> (\<exists>stripped. removeTags L (content file) = Some stripped
          \<and> files s' (staged_path s file now rnd) = Some stripped \<and> \<not> tagged stripped)
    \<and> (\<forall>previous. currentFilePath s = Some previous \<and> previous \<noteq> [] \<longrightarrow> files s' previous = None)
    \<and> url = ''/uploads/'' @ storage_filename file now rnd"
proof -
  have acc: "accepted file"
    using assms(1) route_refused [of "file" L s now rnd] by auto
  show ?thesis
    using assms
    by (auto simp: route_outcome [OF acc] files_staged split: option.splits if_splits)
qed

lemma sequential_upload_sample:
  "upload_route sample_lib published good_mp3 6 8 =
     (Responded (Json ''/uploads/mp3file-6-8''), snd (upload_route sample_lib published good_mp3 6 8))
   \<and> (\<forall>data. \<not> has_id3 (the (removeTags sample_lib data)))
   \<and> currentFilePath (snd (upload_route sample_lib published good_mp3 6 8))
       = Some ''/app/uploads/mp3file-6-8''
   \<and> files (snd (upload_route sample_lib published good_mp3 6 8)) ''/app/uploads/mp3file-6-8''
       = Some [0xFF, 0xFB, 0x90]
   \<and> \<not> has_id3 [0xFF, 0xFB, 0x90]
   \<and> currentFilePath published = Some ''/app/uploads/mp3file-5-7''
   \<and> files (snd (upload_route sample_lib published good_mp3 6 8)) ''/app/uploads/mp3file-5-7'' = None"
proof -
  let ?s' = "snd (upload_route sample_lib published good_mp3 6 8)"
  have a: "upload_route sample_lib published good_mp3 6 8
      = (Responded (Json ''/uploads/mp3file-6-8''), ?s')"
    by (simp add: good_mp3_after_published)
  have b: "removeTags sample_lib data = Some stripped \<Longrightarrow> \<not> has_id3 stripped" for data stripped
    using strip_untagged [of data] by (auto simp: sample_lib_def)
  have b': "\<forall>data. \<not> has_id3 (the (removeTags sample_lib data))"
    by (simp add: sample_lib_def strip_untagged)
  have c: "currentFilePath published = Some ''/app/uploads/mp3file-5-7''"
    by (simp add: published_eq)
  from sequential_upload_postcondition [OF a b]
  have "files ?s' ''/app/uploads/mp3file-5-7'' = None" using c by simp
  then show ?thesis
    using a b' c by (simp add: good_mp3_after_published has_id3_def)
qed

text \<open>
  C3 says this of every successful upload.  The handler reads the slot and deletes the
  file it names in its first part, and assigns the slot in its last part, after the read
  and the parse.  When the handler of a second upload starts before the first has
  assigned the slot, the second one finds nothing to delete: both uploads are answered as
  successful, the slot passes from the first file to the second, and the first file, the
  one published immediately before, stays on disk.  The handler's comment, \<^verbatim>\<open>Delete last
  uploaded file if exist\<close>, is not met.
\<close>

theorem overlapping_uploads_keep_first_file:
  "fst (interleave sample_lib [0, 1, 0, 0, 1, 1] two_in_flight)
     = [Finished (Responded (Json ''/uploads/mp3file-5-7'')),
        Finished (Responded (Json ''/uploads/mp3file-6-8''))]
   \<and> currentFilePath (snd (interleave sample_lib [0, 1, 0, 0, 1] two_in_flight))
       = Some ''/app/uploads/mp3file-5-7''
   \<and> currentFilePath (snd (interleave sample_lib [0, 1, 0, 0, 1, 1] two_in_flight))
       = Some ''/app/uploads/mp3file-6-8''
   \<and> files (snd (interleave sample_lib [0, 1, 0, 0, 1, 1] two_in_flight))
        ''/app/uploads/mp3file-5-7'' = Some [0xFF, 0xFB, 0x90]"
  by (simp add: two_in_flight_eq Let_def delete_last_uploaded_def deleteFile_def
      checkMagicNumber_cases parseMP3Metadata_def sample_lib_def good_mp3_def)

text \<open>The same two requests one after the other: the first file is deleted.\<close>

lemma one_after_the_other_deletes_first_file:
  "fst (interleave sample_lib [0, 0, 0, 1, 1, 1] two_in_flight)
     = [Finished (Responded (Json ''/uploads/mp3file-5-7'')),
        Finished (Responded (Json ''/uploads/mp3file-6-8''))]
   \<and> currentFilePath (snd (interleave sample_lib [0, 0, 0, 1, 1, 1] two_in_flight))
       = Some ''/app/uploads/mp3file-6-8''
   \<and> files (snd (interleave sample_lib [0, 0, 0, 1, 1, 1] two_in_flight))
        ''/app/uploads/mp3file-5-7'' = None"
  by (simp add: two_in_flight_eq Let_def delete_last_uploaded_def deleteFile_def
      checkMagicNumber_cases parseMP3Metadata_def sample_lib_def good_mp3_def)

section \<open>C4: the file name\<close>

text \<open>
  C4 says that the server-side validator rejects a file whose name does not match the
  pattern or is longer than 70 characters.  The server never looks at the name: its
  \<^verbatim>\<open>fileFilter\<close> compares the MIME type and nothing else; the pattern and the length are
  tested by \<^verbatim>\<open>validateFile\<close> in the browser only.  Here the claim fails: a file named
  \<^verbatim>\<open>../../etc/passwd.mp3\<close> is accepted, stored and published by the server.
\<close>

theorem invalid_name_accepted_by_server:
  "\<not> regexName_test (originalname traversal_mp3)
   \<and> fst (upload_route sample_lib (startup ''/app'' Map.empty) traversal_mp3 5 7)
       = Responded (Json ''/uploads/mp3file-5-7'')
   \<and> files (snd (upload_route sample_lib (startup ''/app'' Map.empty) traversal_mp3 5 7))
        ''/app/uploads/mp3file-5-7'' = Some [0xFF, 0xFB, 0x90]"
  apply (intro conjI)
    apply (simp add: traversal_mp3_def good_mp3_def regexName_test_def name_char_def)
   apply (simp_all add: model_defs sample_defs decimal.simps)
  done

text \<open>
  C4 as amended: the verdict of the server's middleware does not depend on the declared
  file name (it is decided by field name, MIME type and size); a name that does not match
  the pattern or is longer than 70 characters is refused by the browser's \<^verbatim>\<open>validateFile\<close>,
  which returns \<^verbatim>\<open>false\<close> for it.
\<close>

theorem filename_checked_only_in_browser:
  "accepted (f\<lparr>originalname := name\<rparr>) = accepted f
   \<and> isl (upload_single dir disk f now rnd) = (\<not> accepted f)
   \<and> (\<not> regexName_test (originalname f) \<or> 70 < length (originalname f)
        \<longrightarrow> \<not> validateFile f)"
  by (auto simp: isl_upload_single accepted_def fileFilter_def file_size_def validateFile_def)

theorem filename_checked_only_in_browser_witness:
  "accepted (good_mp3\<lparr>originalname := ''../../etc/passwd.mp3''\<rparr>) = accepted good_mp3
   \<and> \<not> isl (upload_single ''/app'' Map.empty traversal_mp3 5 7)
   \<and> \<not> regexName_test (originalname traversal_mp3)
   \<and> \<not> validateFile traversal_mp3"
proof -
  have a: "\<not> regexName_test (originalname traversal_mp3)"
    by (simp add: traversal_mp3_def good_mp3_def regexName_test_def name_char_def)
  show ?thesis
    using a
      filename_checked_only_in_browser [where f = good_mp3 and name = "''../../etc/passwd.mp3''"
        and dir = "''/app''" and disk = Map.empty and now = 5 and rnd = 7]
      filename_checked_only_in_browser [where f = traversal_mp3 and name = "''x''"
        and dir = "''/app''" and disk = Map.empty and now = 5 and rnd = 7]
      sample_accepted
    by simp
qed

section \<open>C5: a file that does not parse\<close>

text \<open>
  C5 says that a parse failure deletes the staged file, leaves the slot alone and is
  answered with a rejection.  The first two hold.  The rejection is written in the handler
  (\<^verbatim>\<open>res.status(500).send('Error while parsing the file.')\<close> when the callback gets
  something else than \<^verbatim>\<open>true\<close>), but \<^verbatim>\<open>parseMP3Metadata\<close> never calls the callback from its
  \<^verbatim>\<open>catch\<close> block, so the request is left without any response.  The theorem is what the
  code does on every such request (the stored name differing from the one in the slot).
\<close>

theorem parse_failure_unanswered:
  assumes "accepted file" and "take 3 (content file) = [0x49, 0x44, 0x33]"
    and "\<not> parseFile L (content file) \<or> removeTags L (content file) = None"
    and "currentFilePath s \<noteq> Some (staged_path s file now rnd)"
  shows "fst (upload_route L s file now rnd) = NoResponse
    \<and> files (snd (upload_route L s file now rnd)) (staged_path s file now rnd) = None
    \<and> currentFilePath (snd (upload_route L s file now rnd)) = currentFilePath s"
  using assms by (auto simp: route_outcome deleteFile_def split: option.splits)

theorem parse_failure_unanswered_witness:
  "accepted truncated_mp3
   \<and> take 3 (content truncated_mp3) = [0x49, 0x44, 0x33]
   \<and> \<not> parseFile sample_lib (content truncated_mp3)
   \<and> currentFilePath published \<noteq> Some (staged_path published truncated_mp3 6 8)
   \<and> fst (upload_route sample_lib published truncated_mp3 6 8) = NoResponse
   \<and> files (snd (upload_route sample_lib published truncated_mp3 6 8))
        (staged_path published truncated_mp3 6 8) = None
   \<and> currentFilePath (snd (upload_route sample_lib published truncated_mp3 6 8))
        = currentFilePath published"
proof -
  have a: "accepted truncated_mp3" by (rule sample_accepted)
  have b: "take 3 (content truncated_mp3) = [0x49, 0x44, 0x33]" by (simp add: truncated_mp3_def)
  have c: "\<not> parseFile sample_lib (content truncated_mp3)"
    by (simp add: truncated_mp3_def sample_lib_def)
  have d: "currentFilePath published \<noteq> Some (staged_path published truncated_mp3 6 8)"
    by (simp add: sample_paths) (simp add: published_eq truncated_mp3_def)
  from c have c': "\<not> parseFile sample_lib (content truncated_mp3)
      \<or> removeTags sample_lib (content truncated_mp3) = None" by simp
  show ?thesis
    using a b c d parse_failure_unanswered [OF a b c' d] by simp
qed

section \<open>C6: errors do not all stay inside the pipeline\<close>

text \<open>
  C6 says that no exception crosses the upload pipeline uncaught, errors raised inside the
  asynchronous file-read callback included.  In \<^verbatim>\<open>checkMagicNumber\<close> the \<^verbatim>\<open>try\<close> block
  encloses only the call of \<^verbatim>\<open>readFile\<close>; when the read fails, the callback dereferences
  the undefined \<^verbatim>\<open>data\<close> and the TypeError escapes.  The theorem evaluates the route where
  the model has a failing read: the stored name equals the name in the slot, so the handler
  has just deleted the staged file.
\<close>

theorem read_error_escapes:
  assumes "accepted file" and "currentFilePath s = Some (staged_path s file now rnd)"
  shows "fst (upload_route L s file now rnd) = Uncaught"
  using assms by (simp add: route_outcome)

theorem read_error_escapes_witness:
  "accepted good_mp3
   \<and> currentFilePath published = Some (staged_path published good_mp3 5 7)
   \<and> fst (upload_route sample_lib published good_mp3 5 7) = Uncaught"
proof -
  have a: "accepted good_mp3" by (rule sample_accepted)
  have b: "currentFilePath published = Some (staged_path published good_mp3 5 7)"
    by (simp add: sample_paths) (simp add: published_eq good_mp3_def)
  show ?thesis using a b read_error_escapes [OF a b] by simp
qed

section \<open>C7: the size limit\<close>

text \<open>
  C7: the server's middleware accepts a file only if its size is strictly less than
  7,000,000 bytes; a file offered under the right field name and MIME type with 7,000,000
  bytes or more, so also with exactly 7,000,000, is refused with the error for too large a
  file; and the browser's \<^verbatim>\<open>validateFile\<close> accepts only sizes below 7,000,000 as well.
  (The number is in the source; that the comparison of the middleware is strict is taken
  from the spec.)
\<close>

theorem size_limit_strict:
  "(\<not> isl (upload_single dir disk f now rnd) \<longrightarrow> file_size f < 7000000)
   \<and> (fieldname f = ''mp3file'' \<and> mimetype f = ''audio/mpeg'' \<and> 7000000 \<le> file_size f
        \<longrightarrow> upload_single dir disk f now rnd = Inl TooLarge)
   \<and> (validateFile f \<longrightarrow> file_size f < 7000000)"
  by (auto simp: upload_single_def fileFilter_def within_fileSize_def fileSize_def
      validateFile_def Let_def)

theorem size_limit_strict_witness:
  "fieldname oversize_mp3 = ''mp3file''
   \<and> mimetype oversize_mp3 = ''audio/mpeg''
   \<and> file_size oversize_mp3 = 7000000
   \<and> upload_single ''/app'' Map.empty oversize_mp3 5 7 = Inl TooLarge
   \<and> \<not> validateFile oversize_mp3
   \<and> validateFile good_mp3
   \<and> \<not> isl (upload_single ''/app'' Map.empty good_mp3 5 7)
   \<and> file_size good_mp3 < 7000000"
proof -
  have a: "fieldname oversize_mp3 = ''mp3file''" by (rule oversize_mp3_fields)
  have b: "mimetype oversize_mp3 = ''audio/mpeg''" by (rule oversize_mp3_fields)
  have c: "file_size oversize_mp3 = 7000000" by (rule oversize_mp3_fields)
  have d: "validateFile good_mp3"
    by (simp add: validateFile_def good_mp3_def file_size_def regexName_test_def name_char_def)
  have e: "\<not> isl (upload_single ''/app'' Map.empty good_mp3 5 7)"
    by (simp add: isl_upload_single sample_accepted)
  show ?thesis
    using a b c d e
      size_limit_strict [where f = oversize_mp3 and dir = "''/app''" and disk = Map.empty
        and now = 5 and rnd = 7]
      size_limit_strict [where f = good_mp3 and dir = "''/app''" and disk = Map.empty
        and now = 5 and rnd = 7]
    by auto
qed

section \<open>C8: the stored name\<close>

text \<open>
  C8: two files that differ only in the name the client gave them get the same stored name
  when the clock and the random number are the same; the stored name is the field name, the
  clock value and the random integer joined by hyphens, and for a file the middleware
  accepts the field name is \<^verbatim>\<open>mp3file\<close>.
\<close>

theorem stored_name_ignores_client_name:
  "storage_filename (f\<lparr>originalname := name\<rparr>) now rnd = storage_filename f now rnd
   \<and> storage_filename f now rnd = fieldname f @ ''-'' @ decimal now @ ''-'' @ decimal rnd
   \<and> (upload_single dir disk f now rnd = Inr (filename, disk')
        \<longrightarrow> filename = ''mp3file-'' @ decimal now @ ''-'' @ decimal rnd)"
  by (auto simp: storage_filename_def upload_single_def Let_def split: if_splits)

theorem stored_name_ignores_client_name_witness:
  "storage_filename traversal_mp3 5 7 = storage_filename good_mp3 5 7
   \<and> storage_filename good_mp3 5 7 = ''mp3file-5-7''
   \<and> upload_single ''/app'' Map.empty good_mp3 5 7
       = Inr (''mp3file-5-7'', [''/app/uploads/mp3file-5-7'' \<mapsto> content good_mp3])"
proof -
  have n: "storage_filename good_mp3 5 7 = ''mp3file-5-7''"
    by (simp add: storage_filename_def good_mp3_def sample_decimals)
  have a: "upload_single ''/app'' Map.empty good_mp3 5 7
       = Inr (''mp3file-5-7'', [''/app/uploads/mp3file-5-7'' \<mapsto> content good_mp3])"
    by (simp add: upload_single_accepted sample_accepted n)
  have t: "traversal_mp3 = good_mp3\<lparr>originalname := ''../../etc/passwd.mp3''\<rparr>"
    by (simp add: traversal_mp3_def)
  show ?thesis
    using stored_name_ignores_client_name [where f = good_mp3 and name = "''../../etc/passwd.mp3''"
        and now = 5 and rnd = 7 and dir = "''/app''" and disk = Map.empty
        and filename = "''mp3file-5-7''"
        and disk' = "[''/app/uploads/mp3file-5-7'' \<mapsto> content good_mp3]"]
    by (simp only: t a n simp_thms)
qed

section \<open>C9: what the slot can hold\<close>



section \<open>C10: the callback of \<^verbatim>\<open>checkMagicNumber\<close>\<close>

text \<open>
  C10: in both versions \<^verbatim>\<open>checkMagicNumber\<close> calls its callback only with \<^verbatim>\<open>true\<close>, and
  exactly when the file could be read and starts with the bytes 49 44 33; with other
  leading bytes or a failed read the callback is never called, and whenever it is not
  called the handler sends no response.
\<close>

theorem magic_callback_only_true:
  "(checkMagicNumber s p = Invoked v) =
      (v = True \<and> (\<exists>data. files s p = Some data \<and> take 3 data = [0x49, 0x44, 0x33]))
   \<and> (checkMagicNumber_001 t p = Invoked v) =
      (v = True \<and> (\<exists>data. files_001 t p = Some data \<and> take 3 data = [0x49, 0x44, 0x33]))
   \<and> ((\<forall>result. checkMagicNumber (delete_last_uploaded s') (path_join [cwd s', ''uploads'', filename])
          \<noteq> Invoked result)
      \<longrightarrow> \<not> responded (fst (upload_handler L s' filename)))"
proof (intro conjI)
  show "(checkMagicNumber s p = Invoked v) =
      (v = True \<and> (\<exists>data. files s p = Some data \<and> take 3 data = [0x49, 0x44, 0x33]))"
    by (auto simp: checkMagicNumber_cases split: option.splits if_splits)
  show "(checkMagicNumber_001 t p = Invoked v) =
      (v = True \<and> (\<exists>data. files_001 t p = Some data \<and> take 3 data = [0x49, 0x44, 0x33]))"
    by (auto simp: checkMagicNumber_001_cases split: option.splits if_splits)
  show "(\<forall>result. checkMagicNumber (delete_last_uploaded s') (path_join [cwd s', ''uploads'', filename])
          \<noteq> Invoked result)
      \<longrightarrow> \<not> responded (fst (upload_handler L s' filename))"
    using handler_silent [of s' filename L] by blast
qed

theorem magic_callback_only_true_witness:
  "checkMagicNumber (staged published good_mp3 6 8) ''/app/uploads/mp3file-6-8'' = Invoked True
   \<and> files (staged published good_mp3 6 8) ''/app/uploads/mp3file-6-8'' = Some (content good_mp3)
   \<and> checkMagicNumber_001
        (published_001\<lparr>files_001 := (files_001 published_001)(''/app/uploads/mp3file-6-8'' \<mapsto> content good_mp3)\<rparr>)
        ''/app/uploads/mp3file-6-8'' = Invoked True
   \<and> take 3 (content good_mp3) = [0x49, 0x44, 0x33]
   \<and> checkMagicNumber (delete_last_uploaded not_mp3_staged) ''/app/uploads/mp3file-6-8'' = NotInvoked
   \<and> \<not> responded (fst (upload_handler sample_lib not_mp3_staged ''mp3file-6-8''))"
proof -
  let ?t = "published_001\<lparr>files_001 :=
      (files_001 published_001)(''/app/uploads/mp3file-6-8'' \<mapsto> content good_mp3)\<rparr>"
  have a: "checkMagicNumber (staged published good_mp3 6 8) ''/app/uploads/mp3file-6-8'' = Invoked True"
    by (simp add: checkMagicNumber_cases files_staged sample_paths)
      (simp add: published_eq good_mp3_def)
  have b: "files (staged published good_mp3 6 8) ''/app/uploads/mp3file-6-8'' = Some (content good_mp3)"
    by (simp add: files_staged sample_paths) (simp add: published_eq good_mp3_def)
  have c: "checkMagicNumber (delete_last_uploaded not_mp3_staged) ''/app/uploads/mp3file-6-8'' = NotInvoked"
    by (simp add: checkMagicNumber_cases files_delete_last_uploaded not_mp3_staged_def published_eq)
  have d: "cwd not_mp3_staged = ''/app''" by (simp add: not_mp3_staged_def published_eq)
  have e: "checkMagicNumber_001 ?t ''/app/uploads/mp3file-6-8'' = Invoked True"
    by (simp add: checkMagicNumber_001_cases good_mp3_def)
  have f: "take 3 (content good_mp3) = [0x49, 0x44, 0x33]" by (simp add: good_mp3_def)
  show ?thesis
    using a b c d e f
      magic_callback_only_true [of "staged published good_mp3 6 8" "''/app/uploads/mp3file-6-8''"
        True ?t not_mp3_staged "''mp3file-6-8''" sample_lib]
    by simp
qed

end
